theory Spec2Isabelle
  imports Main
begin

section \<open>JavaScript values that reach the client\<close>

text \<open>
  Values of TypeScript type \<open>unknown\<close> (the entries of an error body's \<open>details\<close>
  record, and the constructor arguments that \<open>parseApiError\<close> takes from them with an
  unchecked \<open>as\<close> cast) are JSON values, or \<open>undefined\<close> where a property is
  missing. Numbers are modelled as integers: every numeric field of this API is a byte
  count or a status code. Fractions and magnitudes of 1e21 and more, which JavaScript
  prints in another notation, are outside the model.
\<close>

datatype jsval =
    JUndefined
  | JNull
  | JBool bool
  | JNum int
  | JStr string
  | JArr "jsval list"
  | JObj "(string \<times> jsval) list"

text \<open>Decimal notation of a natural number, as a template literal prints an integer.\<close>

fun digit_char :: "nat \<Rightarrow> char" where
  "digit_char n = ''0123456789'' ! n"

function decimal :: "nat \<Rightarrow> string" where
  "decimal n = (if n < 10 then [digit_char n] else decimal (n div 10) @ [digit_char (n mod 10)])"
  by pat_completeness auto
termination
  by (relation "measure id") auto

declare decimal.simps [simp del]



text \<open>\<open>nullish v\<close>: the left operand of \<open>??\<close> is \<open>null\<close> or \<open>undefined\<close>.\<close>

definition nullish :: "jsval \<Rightarrow> bool" where
  "nullish v = (v = JUndefined \<or> v = JNull)"

text \<open>\<open>opt_get d k\<close> is \<open>d?.k\<close> for an optional record \<open>d\<close>.\<close>

definition opt_get :: "(string \<times> jsval) list option \<Rightarrow> string \<Rightarrow> jsval" where
  "opt_get d k =
     (case d of
        None \<Rightarrow> JUndefined
      | Some kvs \<Rightarrow> (case map_of kvs k of None \<Rightarrow> JUndefined | Some v \<Rightarrow> v))"

text \<open>\<open>dflt v x\<close>: a parameter with default value \<open>v\<close>, or \<open>x ?? v\<close> for an optional string.\<close>

definition dflt :: "'a \<Rightarrow> 'a option \<Rightarrow> 'a" where
  "dflt v x = (case x of None \<Rightarrow> v | Some y \<Rightarrow> y)"

section \<open>The error classes (errors.ts)\<close>

text \<open>
  One constructor per class, holding the constructor's arguments after defaults have been
  applied. \<open>Error\<close> is the built-in class (a rejected \<open>fetch\<close>, a JSON syntax error):
  only its message is read. The fields that each subclass hands to
  \<open>super(message, code, statusCode, details)\<close> are the functions \<open>message\<close>,
  \<open>code\<close>, \<open>statusCode\<close> and \<open>details\<close> below; \<open>name\<close> is \<open>this.name\<close>.
\<close>

datatype js_error =
    Error string
  | StorageBrainError string string "nat option" "(string \<times> jsval) list option"
  | AuthenticationError string
  | QuotaExceededError string jsval jsval
  | InvalidFileTypeError jsval jsval
  | FileTooLargeError jsval jsval
  | FileNotFoundError jsval
  | NetworkError string "js_error option"
  | UploadError string "js_error option"
  | ValidationError string jsval

fun name :: "js_error \<Rightarrow> string" where
  "name (Error m) = ''Error''"
| "name (StorageBrainError m c s d) = ''StorageBrainError''"
| "name (AuthenticationError m) = ''AuthenticationError''"
| "name (QuotaExceededError m q u) = ''QuotaExceededError''"
| "name (InvalidFileTypeError t a) = ''InvalidFileTypeError''"
| "name (FileTooLargeError f x) = ''FileTooLargeError''"
| "name (FileNotFoundError i) = ''FileNotFoundError''"
| "name (NetworkError m e) = ''NetworkError''"
| "name (UploadError m e) = ''UploadError''"
| "name (ValidationError m es) = ''ValidationError''"


fun code :: "js_error \<Rightarrow> string option" where
  "code (Error m) = None"
| "code (StorageBrainError m c s d) = Some c"
| "code (AuthenticationError m) = Some ''AUTHENTICATION_ERROR''"
| "code (QuotaExceededError m q u) = Some ''QUOTA_EXCEEDED''"
| "code (InvalidFileTypeError t a) = Some ''INVALID_FILE_TYPE''"
| "code (FileTooLargeError f x) = Some ''FILE_TOO_LARGE''"
| "code (FileNotFoundError i) = Some ''FILE_NOT_FOUND''"
| "code (NetworkError m e) = Some ''NETWORK_ERROR''"
| "code (UploadError m e) = Some ''UPLOAD_ERROR''"
| "code (ValidationError m es) = Some ''VALIDATION_ERROR''"

fun statusCode :: "js_error \<Rightarrow> nat option" where
  "statusCode (Error m) = None"
| "statusCode (StorageBrainError m c s d) = s"
| "statusCode (AuthenticationError m) = Some 401"
| "statusCode (QuotaExceededError m q u) = Some 403"
| "statusCode (InvalidFileTypeError t a) = Some 400"
| "statusCode (FileTooLargeError f x) = Some 400"
| "statusCode (FileNotFoundError i) = Some 404"
| "statusCode (NetworkError m e) = None"
| "statusCode (UploadError m e) = None"
| "statusCode (ValidationError m es) = Some 400"



text \<open>\<open>e instanceof StorageBrainError\<close>: every class but the built-in one.\<close>

fun instanceof_StorageBrainError :: "js_error \<Rightarrow> bool" where
  "instanceof_StorageBrainError (Error m) = False"
| "instanceof_StorageBrainError e = True"

subsection \<open>parseApiError\<close>

text \<open>
  The parameter has the declared type
  \<open>{ error?: { code?: string; message?: string; details?: Record<string, unknown> } }\<close>.
\<close>

record api_error =
  body_code :: "string option"
  body_message :: "string option"
  body_details :: "(string \<times> jsval) list option"

record api_response =
  resp_error :: "api_error option"

definition parseApiError :: "nat \<Rightarrow> api_response \<Rightarrow> js_error" where
  "parseApiError status response =
     (let b = (case resp_error response of
                 None \<Rightarrow> \<lparr>body_code = None, body_message = None, body_details = None\<rparr>
               | Some e \<Rightarrow> e);
          c = body_code b;
          m = body_message b;
          d = body_details b
      in if c = Some ''UNAUTHORIZED'' then
           AuthenticationError (dflt ''Authentication failed'' m)
         else if c = Some ''QUOTA_EXCEEDED'' then
           QuotaExceededError (dflt ''Storage quota exceeded'' m)
             (opt_get d ''quotaBytes'') (opt_get d ''usedBytes'')
         else if c = Some ''INVALID_FILE_TYPE'' then
           InvalidFileTypeError (opt_get d ''fileType'') (opt_get d ''allowedTypes'')
         else if c = Some ''FILE_TOO_LARGE'' then
           FileTooLargeError (opt_get d ''fileSize'') (opt_get d ''maxSize'')
         else if c = Some ''FILE_NOT_FOUND'' \<or> c = Some ''NOT_FOUND'' then
           FileNotFoundError
             (if nullish (opt_get d ''fileId'') then JStr ''unknown'' else opt_get d ''fileId'')
         else if c = Some ''VALIDATION_ERROR'' then
           ValidationError (dflt ''Validation failed'' m) (opt_get d ''errors'')
         else
           StorageBrainError (dflt ''An error occurred'' m) (dflt ''UNKNOWN_ERROR'' c)
             (Some status) d)"

section \<open>Constants and data shapes (constants.ts, types.ts)\<close>

definition ALLOWED_MIME_TYPES :: "string list" where
  "ALLOWED_MIME_TYPES =
     [''image/jpeg'', ''image/png'', ''image/webp'', ''image/gif'', ''image/avif'',
      ''application/pdf'']"

text \<open>\<open>RETRY_CONFIG\<close>: the three fields that the client reads.\<close>

definition initialDelayMs :: nat where
  "initialDelayMs = 1000"

definition maxDelayMs :: nat where
  "maxDelayMs = 10000"

definition backoffMultiplier :: nat where
  "backoffMultiplier = 2"

definition DEFAULT_BASE_URL :: string where
  "DEFAULT_BASE_URL = ''https://storage-brain-api.marlin-pohl.workers.dev''"

definition DEFAULT_TIMEOUT :: nat where
  "DEFAULT_TIMEOUT = 30000"

definition DEFAULT_MAX_RETRIES :: nat where
  "DEFAULT_MAX_RETRIES = 3"

datatype ProcessingContext = Newsletter | Invoice | FramerSite | DefaultContext

fun context_string :: "ProcessingContext \<Rightarrow> string" where
  "context_string Newsletter = ''newsletter''"
| "context_string Invoice = ''invoice''"
| "context_string FramerSite = ''framer-site''"
| "context_string DefaultContext = ''default''"

datatype ProcessingStatus = Pending | Processing | Completed | Failed

record FileInfo =
  file_id :: string
  url :: string
  originalName :: string
  fileType :: string
  sizeBytes :: nat
  file_context :: ProcessingContext
  file_tags :: "(string \<times> string) list option"
  metadata :: jsval
  processingStatus :: ProcessingStatus
  createdAt :: string

record UploadMetadata =
  maxSizeBytes :: nat
  allowedTypes :: "string list"

record UploadHandshake =
  fileId :: string
  presignedUrl :: string
  expiresAt :: string
  uploadMetadata :: UploadMetadata

text \<open>
  A \<open>File | Blob\<close>: its name (a \<open>Blob\<close> that is no \<open>File\<close> has none), its declared
  media type and its size. The bytes themselves are never inspected.
\<close>

record Blob =
  blob_name :: "string option"
  blob_type :: string
  blob_size :: nat

text \<open>
  An \<open>AbortSignal\<close> is read through its \<open>aborted\<close> flag only, at the time of the read.
\<close>

type_synonym AbortSignal = "nat \<Rightarrow> bool"

record UploadOptions =
  opt_context :: ProcessingContext
  opt_tags :: "(string \<times> string) list option"
  opt_onProgress :: bool
  opt_webhookUrl :: "string option"
  opt_signal :: "AbortSignal option"

record StorageBrainConfig =
  cfg_apiKey :: string
  cfg_baseUrl :: "string option"
  cfg_timeout :: "nat option"
  cfg_maxRetries :: "nat option"

text \<open>The four private fields of a \<open>StorageBrain\<close> instance.\<close>

record StorageBrain =
  apiKey :: string
  baseUrl :: string
  timeout :: nat
  maxRetries :: nat

text \<open>\<open>s.replace(/\/$/, '')\<close>: one trailing slash is removed.\<close>

definition strip_trailing_slash :: "string \<Rightarrow> string" where
  "strip_trailing_slash s = (if s \<noteq> [] \<and> last s = CHR ''/'' then butlast s else s)"

definition new_StorageBrain :: "StorageBrainConfig \<Rightarrow> js_error + StorageBrain" where
  "new_StorageBrain config =
     (if cfg_apiKey config = [] then
        Inl (StorageBrainError ''API key is required'' ''CONFIGURATION_ERROR'' None None)
      else
        Inr \<lparr>apiKey = cfg_apiKey config,
             baseUrl = strip_trailing_slash (dflt DEFAULT_BASE_URL (cfg_baseUrl config)),
             timeout = dflt DEFAULT_TIMEOUT (cfg_timeout config),
             maxRetries = dflt DEFAULT_MAX_RETRIES (cfg_maxRetries config)\<rparr>)"

section \<open>The world outside the client\<close>

text \<open>
  Numbers that the progress callbacks receive. \<open>Math.round((loaded / total) * 100)\<close> is
  evaluated on exact quotients (nearest integer, a tie going up); for \<open>total = 0\<close> the
  division gives \<open>NaN\<close> or \<open>Infinity\<close>, which \<open>Math.round\<close> and the arithmetic of
  the caller pass on unchanged.
\<close>

datatype jsnum = Fin nat | NaN | Infinity

definition js_percent :: "nat \<Rightarrow> nat \<Rightarrow> jsnum" where
  "js_percent loaded tot =
     (if tot = 0 then (if loaded = 0 then NaN else Infinity)
      else Fin ((200 * loaded + tot) div (2 * tot)))"

text \<open>
  \<open>10 + Math.round(progress * 0.8)\<close>. For an integer percentage the product is never
  half-way between two integers, so the nearest integer is that of the exact product.
\<close>

definition map_progress :: "jsnum \<Rightarrow> jsnum" where
  "map_progress progress =
     (case progress of
        Fin p \<Rightarrow> Fin (10 + (8 * p + 5) div 10)
      | NaN \<Rightarrow> NaN
      | Infinity \<Rightarrow> Infinity)"

text \<open>
  A network call as it leaves the client: a \<open>fetch\<close> with method, URL, headers and body
  (the value handed to \<open>JSON.stringify\<close>, \<open>JUndefined\<close> when no body is sent), or the
  \<open>send\<close> of an \<open>XMLHttpRequest\<close> with method, URL, headers and payload.
\<close>

datatype net_call =
    Fetch string string "(string \<times> string) list" jsval
  | XhrSend string string "(string \<times> string) list" Blob

text \<open>
  The observable state: the clock read by \<open>Date.now()\<close> (milliseconds), the network
  calls issued so far with the time of issue, the delays of the timers awaited so far,
  and the values passed to the caller's \<open>onProgress\<close> so far.
\<close>

record world =
  now :: nat
  calls :: "(nat \<times> net_call) list"
  sleeps :: "nat list"
  reported :: "jsnum list"

text \<open>
  What one \<open>fetch\<close> attempt meets: the promise rejects (no response: a network failure,
  or the abort of the per-attempt timeout); a response with \<open>ok = false\<close>, its status and
  its body if that parses as JSON; a response with \<open>ok = true\<close> whose body parses to the
  expected type; or one whose body does not parse.
\<close>

datatype 'a fetch_result =
    FetchRejects string
  | NotOk nat "api_response option"
  | OkJson 'a
  | OkBadJson string

text \<open>
  The events that the browser delivers to the listeners of one upload, in order:
  \<open>progress\<close> of \<open>xhr.upload\<close> (with \<open>lengthComputable\<close>, \<open>loaded\<close>, \<open>total\<close>),
  \<open>load\<close> (with \<open>xhr.status\<close>), \<open>error\<close> and \<open>abort\<close> of the request, and \<open>abort\<close>
  of the caller's signal. Setting the request up can also throw.
\<close>

datatype xhr_event =
    Progress bool nat nat
  | Load nat
  | ErrorEvent
  | AbortEvent
  | SignalAbort

datatype xhr_behaviour = Throws string | Emits "xhr_event list"

text \<open>
  The environment of a run: the answer to the \<open>k\<close>-th network call (typed by the
  endpoint asked), how long that call takes, how late the \<open>k\<close>-th timer fires, and
  what the upload request meets. The index of a network call is the number of calls
  issued before it; the index of a timer likewise.
\<close>

record env =
  handshake_reply :: "nat \<Rightarrow> UploadHandshake fetch_result"
  file_reply :: "nat \<Rightarrow> FileInfo fetch_result"
  latency :: "nat \<Rightarrow> nat"
  timer_lag :: "nat \<Rightarrow> nat"
  xhr :: xhr_behaviour
  xhr_ms :: nat

text \<open>\<open>await new Promise((resolve) => setTimeout(resolve, ms))\<close>.\<close>

definition sleep :: "env \<Rightarrow> nat \<Rightarrow> world \<Rightarrow> world" where
  "sleep E ms w =
     w\<lparr>now := now w + ms + timer_lag E (length (sleeps w)), sleeps := sleeps w @ [ms]\<rparr>"

section \<open>The client (client.ts)\<close>

subsection \<open>request\<close>

text \<open>Truthiness, for \<open>body ? JSON.stringify(body) : undefined\<close>.\<close>

fun truthy :: "jsval \<Rightarrow> bool" where
  "truthy JUndefined = False"
| "truthy JNull = False"
| "truthy (JBool b) = b"
| "truthy (JNum i) = (i \<noteq> 0)"
| "truthy (JStr s) = (s \<noteq> [])"
| "truthy (JArr xs) = True"
| "truthy (JObj kvs) = True"

text \<open>
  The \<open>try\<close> block of one attempt: the value returned, or the error caught.
  A body that is no JSON is replaced by \<open>{}\<close> before classification.
\<close>

definition attempt_result :: "'a fetch_result \<Rightarrow> js_error + 'a" where
  "attempt_result r =
     (case r of
        FetchRejects m \<Rightarrow> Inl (Error m)
      | NotOk status body \<Rightarrow>
          Inl (parseApiError status (case body of None \<Rightarrow> \<lparr>resp_error = None\<rparr> | Some b \<Rightarrow> b))
      | OkJson v \<Rightarrow> Inr v
      | OkBadJson m \<Rightarrow> Inl (Error m))"

text \<open>
  \<open>error instanceof StorageBrainError && error.statusCode && error.statusCode < 500\<close>:
  the caught error is rethrown at once. A status code that is absent or 0 is falsy.
\<close>

definition rethrown :: "js_error \<Rightarrow> bool" where
  "rethrown error =
     (instanceof_StorageBrainError error
      \<and> (case statusCode error of None \<Rightarrow> False | Some s \<Rightarrow> s \<noteq> 0 \<and> s < 500))"

text \<open>
  The \<open>for\<close> loop of \<open>request\<close>, from the given attempt on, with \<open>lastError\<close>.
  \<open>attempt < this.maxRetries - 1\<close> is written \<open>attempt + 1 < maxRetries\<close>.
\<close>

function request_loop ::
  "StorageBrain \<Rightarrow> env \<Rightarrow> (nat \<Rightarrow> 'a fetch_result) \<Rightarrow> net_call \<Rightarrow> nat \<Rightarrow> js_error option
     \<Rightarrow> world \<Rightarrow> (js_error + 'a) \<times> world" where
  "request_loop c E reply call attempt lastError w =
     (if attempt < maxRetries c then
        (let k = length (calls w);
             w1 = w\<lparr>now := now w + latency E k, calls := calls w @ [(now w, call)]\<rparr>
         in case attempt_result (reply k) of
              Inr v \<Rightarrow> (Inr v, w1)
            | Inl error \<Rightarrow>
                if rethrown error then (Inl error, w1)
                else request_loop c E reply call (attempt + 1) (Some error)
                       (if attempt + 1 < maxRetries c
                        then sleep E (min (initialDelayMs * backoffMultiplier ^ attempt) maxDelayMs) w1
                        else w1))
      else
        (Inl (NetworkError (''Request failed after '' @ decimal (maxRetries c) @ '' attempts'')
                lastError), w))"
  by pat_completeness auto
termination
  by (relation "measure (\<lambda>(c, E, reply, call, attempt, lastError, w). maxRetries c - attempt)") auto

declare request_loop.simps [simp del]

definition request ::
  "StorageBrain \<Rightarrow> env \<Rightarrow> (nat \<Rightarrow> 'a fetch_result) \<Rightarrow> string \<Rightarrow> string \<Rightarrow> jsval
     \<Rightarrow> world \<Rightarrow> (js_error + 'a) \<times> world" where
  "request c E reply method path body w =
     request_loop c E reply
       (Fetch method (baseUrl c @ path)
          [(''Content-Type'', ''application/json''), (''Authorization'', ''Bearer '' @ apiKey c)]
          (if truthy body then body else JUndefined))
       0 None w"

definition getFile ::
  "StorageBrain \<Rightarrow> env \<Rightarrow> string \<Rightarrow> world \<Rightarrow> (js_error + FileInfo) \<times> world" where
  "getFile c E fid w = request c E (file_reply E) ''GET'' (''/api/v1/files/'' @ fid) JUndefined w"

definition requestUpload ::
  "StorageBrain \<Rightarrow> env \<Rightarrow> jsval \<Rightarrow> world \<Rightarrow> (js_error + UploadHandshake) \<times> world" where
  "requestUpload c E params w =
     request c E (handshake_reply E) ''POST'' ''/api/v1/upload/request'' params w"

subsection \<open>uploadToPresignedUrl\<close>

definition startsWith :: "string \<Rightarrow> string \<Rightarrow> bool" where
  "startsWith s p = (take (length p) s = p)"

text \<open>
  The listeners of the request, run over the events in order until the promise settles.
  No further event means that the promise never settles (\<open>None\<close>). The listener on the
  caller's signal exists only if a signal was passed; it calls \<open>xhr.abort()\<close>, which
  fires the request's \<open>abort\<close>. A progress callback acts on the log of reported
  values.
\<close>

fun xhr_settle ::
  "(jsnum \<Rightarrow> jsnum list \<Rightarrow> jsnum list) option \<Rightarrow> bool \<Rightarrow> xhr_event list \<Rightarrow> world
     \<Rightarrow> ((js_error + unit) \<times> world) option" where
  "xhr_settle onProgress has_signal [] w = None"
| "xhr_settle onProgress has_signal (Progress lengthComputable loaded tot # evs) w =
     xhr_settle onProgress has_signal evs
       (case onProgress of
          None \<Rightarrow> w
        | Some cb \<Rightarrow>
            if lengthComputable then w\<lparr>reported := cb (js_percent loaded tot) (reported w)\<rparr>
            else w)"
| "xhr_settle onProgress has_signal (Load status # evs) w =
     Some (if 200 \<le> status \<and> status < 300 then Inr ()
           else Inl (UploadError (''Upload failed with status '' @ decimal status) None), w)"
| "xhr_settle onProgress has_signal (ErrorEvent # evs) w =
     Some (Inl (NetworkError ''Network error during upload'' None), w)"
| "xhr_settle onProgress has_signal (AbortEvent # evs) w =
     Some (Inl (UploadError ''Upload was cancelled'' None), w)"
| "xhr_settle onProgress has_signal (SignalAbort # evs) w =
     (if has_signal then Some (Inl (UploadError ''Upload was cancelled'' None), w)
      else xhr_settle onProgress has_signal evs w)"

definition uploadToPresignedUrl ::
  "StorageBrain \<Rightarrow> env \<Rightarrow> string \<Rightarrow> Blob \<Rightarrow> string
     \<Rightarrow> (jsnum \<Rightarrow> jsnum list \<Rightarrow> jsnum list) option \<Rightarrow> AbortSignal option \<Rightarrow> world
     \<Rightarrow> ((js_error + unit) \<times> world) option" where
  "uploadToPresignedUrl c E url_given file contentType onProgress signal w =
     (let uploadUrl = (if startsWith url_given ''/'' then baseUrl c @ url_given else url_given);
          settled =
            (case xhr E of
               Throws m \<Rightarrow> Some (Inl (Error m), w)
             | Emits evs \<Rightarrow>
                 (let headers =
                        (''Content-Type'', contentType) #
                        (if startsWith url_given ''/''
                         then [(''Authorization'', ''Bearer '' @ apiKey c)] else []);
                      w1 = w\<lparr>now := now w + xhr_ms E,
                              calls := calls w @ [(now w, XhrSend ''PUT'' uploadUrl headers file)]\<rparr>
                  in xhr_settle onProgress (signal \<noteq> None) evs w1))
      in case settled of
           None \<Rightarrow> None
         | Some (Inr u, w2) \<Rightarrow> Some (Inr (), w2)
         | Some (Inl error, w2) \<Rightarrow>
             Some (Inl (if instanceof_StorageBrainError error then error
                        else UploadError ''Failed to upload file'' (Some error)), w2))"

subsection \<open>waitForProcessing\<close>

text \<open>\<open>signal?.aborted\<close>, read at the current time.\<close>

definition aborted :: "AbortSignal option \<Rightarrow> world \<Rightarrow> bool" where
  "aborted signal w = (case signal of None \<Rightarrow> False | Some s \<Rightarrow> s (now w))"

text \<open>
  The \<open>while\<close> loop with the final \<open>return this.getFile(fileId)\<close>. The loop ends only
  when the clock passes the deadline or a read returns; a run in which neither happens
  has the value \<open>None\<close>.
\<close>

partial_function (option) poll ::
  "StorageBrain \<Rightarrow> env \<Rightarrow> string \<Rightarrow> AbortSignal option \<Rightarrow> nat \<Rightarrow> nat \<Rightarrow> nat \<Rightarrow> world
     \<Rightarrow> ((js_error + FileInfo) \<times> world) option" where
  "poll c E fid signal maxWaitMs pollIntervalMs startTime w =
     (if int (now w) - int startTime < int maxWaitMs then
        if aborted signal w then Some (Inl (UploadError ''Operation was cancelled'' None), w)
        else
          (case getFile c E fid w of
             (Inl error, w1) \<Rightarrow> Some (Inl error, w1)
           | (Inr file, w1) \<Rightarrow>
               if processingStatus file = Completed \<or> processingStatus file = Failed
               then Some (Inr file, w1)
               else poll c E fid signal maxWaitMs pollIntervalMs startTime
                      (sleep E pollIntervalMs w1))
      else Some (getFile c E fid w))"

definition waitForProcessing ::
  "StorageBrain \<Rightarrow> env \<Rightarrow> string \<Rightarrow> AbortSignal option \<Rightarrow> nat \<Rightarrow> nat \<Rightarrow> world
     \<Rightarrow> ((js_error + FileInfo) \<times> world) option" where
  "waitForProcessing c E fid signal maxWaitMs pollIntervalMs w =
     poll c E fid signal maxWaitMs pollIntervalMs (now w) w"

subsection \<open>upload\<close>

text \<open>\<open>onProgress?.(v)\<close> for the caller's callback.\<close>

definition call_onProgress :: "UploadOptions \<Rightarrow> jsnum \<Rightarrow> jsnum list \<Rightarrow> jsnum list" where
  "call_onProgress options v log = (if opt_onProgress options then log @ [v] else log)"

definition tags_json :: "(string \<times> string) list option \<Rightarrow> jsval" where
  "tags_json t = (case t of None \<Rightarrow> JUndefined | Some kvs \<Rightarrow> JObj (map (\<lambda>(k, v). (k, JStr v)) kvs))"

definition upload ::
  "StorageBrain \<Rightarrow> env \<Rightarrow> Blob \<Rightarrow> UploadOptions \<Rightarrow> world
     \<Rightarrow> ((js_error + FileInfo) \<times> world) option" where
  "upload c E file options w =
     (let fileName = dflt ''file'' (blob_name file);
          ftype = blob_type file;
          fileSize = blob_size file
      in if ftype \<notin> set ALLOWED_MIME_TYPES then
           Some (Inl (InvalidFileTypeError (JStr ftype) (JArr (map JStr ALLOWED_MIME_TYPES))), w)
         else
           (case requestUpload c E
                   (JObj [(''fileType'', JStr ftype), (''fileName'', JStr fileName),
                          (''fileSizeBytes'', JNum (int fileSize)),
                          (''context'', JStr (context_string (opt_context options))),
                          (''tags'', tags_json (opt_tags options)),
                          (''webhookUrl'',
                           case opt_webhookUrl options of None \<Rightarrow> JUndefined | Some u \<Rightarrow> JStr u)])
                   w of
              (Inl error, w1) \<Rightarrow> Some (Inl error, w1)
            | (Inr handshake, w1) \<Rightarrow>
                (let w2 = w1\<lparr>reported := call_onProgress options (Fin 10) (reported w1)\<rparr>
                 in case uploadToPresignedUrl c E (presignedUrl handshake) file ftype
                           (Some (\<lambda>progress. call_onProgress options (map_progress progress)))
                           (opt_signal options) w2 of
                      None \<Rightarrow> None
                    | Some (Inl error, w3) \<Rightarrow> Some (Inl error, w3)
                    | Some (Inr u, w3) \<Rightarrow>
                        (let w4 = w3\<lparr>reported := call_onProgress options (Fin 90) (reported w3)\<rparr>
                         in case waitForProcessing c E (fileId handshake) (opt_signal options)
                                   60000 1000 w4 of
                              None \<Rightarrow> None
                            | Some (Inl error, w5) \<Rightarrow> Some (Inl error, w5)
                            | Some (Inr fileInfo, w5) \<Rightarrow>
                                Some (Inr fileInfo,
                                      w5\<lparr>reported :=
                                            call_onProgress options (Fin 100) (reported w5)\<rparr>)))))"

section \<open>Vocabulary of the statements\<close>

text \<open>An event that leaves the upload in flight.\<close>

fun is_progress :: "xhr_event \<Rightarrow> bool" where
  "is_progress (Progress l a b) = True"
| "is_progress ev = False"




section \<open>Sample data\<close>

definition demo_client :: StorageBrain where
  "demo_client =
     \<lparr>apiKey = ''sk_test_key'', baseUrl = ''https://api.example.test'', timeout = 30000,
      maxRetries = 3\<rparr>"

definition start_world :: world where
  "start_world = \<lparr>now = 0, calls = [], sleeps = [], reported = []\<rparr>"

definition demo_blob :: Blob where
  "demo_blob = \<lparr>blob_name = Some ''scan.png'', blob_type = ''image/png'', blob_size = 1000\<rparr>"


definition demo_handshake :: UploadHandshake where
  "demo_handshake =
     \<lparr>fileId = ''f1'', presignedUrl = ''/api/v1/upload/f1'', expiresAt = ''2024-01-01T01:00:00Z'',
      uploadMetadata = \<lparr>maxSizeBytes = 104857600, allowedTypes = [''image/png'']\<rparr>\<rparr>"

definition processing_info :: FileInfo where
  "processing_info =
     \<lparr>file_id = ''f1'', url = ''https://cdn.example.test/f1'', originalName = ''scan.png'',
      fileType = ''image/png'', sizeBytes = 1000, file_context = Invoice, file_tags = None,
      metadata = JNull, processingStatus = Processing, createdAt = ''2024-01-01T00:00:00Z''\<rparr>"

text \<open>No call gets an answer: every \<open>fetch\<close> rejects after 20 ms.\<close>

definition offline_env :: env where
  "offline_env =
     \<lparr>handshake_reply = (\<lambda>k. FetchRejects ''Failed to fetch''),
      file_reply = (\<lambda>k. FetchRejects ''Failed to fetch''),
      latency = (\<lambda>k. 20), timer_lag = (\<lambda>k. 0), xhr = Emits [], xhr_ms = 0\<rparr>"

text \<open>The file stays in state \<open>processing\<close> for ever.\<close>

definition busy_env :: env where
  "busy_env = offline_env\<lparr>file_reply := (\<lambda>k. OkJson processing_info)\<rparr>"

text \<open>A run in which everything succeeds; the first progress event comes after 1 byte in 1000.\<close>

definition upload_env :: env where
  "upload_env =
     \<lparr>handshake_reply = (\<lambda>k. OkJson demo_handshake),
      file_reply = (\<lambda>k. OkJson (processing_info\<lparr>processingStatus := Completed\<rparr>)),
      latency = (\<lambda>k. 20), timer_lag = (\<lambda>k. 0),
      xhr = Emits [Progress True 1 1000, Progress True 500 1000, Load 200], xhr_ms = 300\<rparr>"

text \<open>The caller's signal aborts during the transfer; the destination answers 500.\<close>

definition cancel_env :: env where
  "cancel_env = offline_env\<lparr>xhr := Emits [Progress True 250 1000, SignalAbort, Load 200]\<rparr>"

definition reject_env :: env where
  "reject_env = offline_env\<lparr>xhr := Emits [Progress True 250 1000, Load 500]\<rparr>"

section \<open>Properties of the error classification\<close>





lemma new_StorageBrain_demo:
  "new_StorageBrain
     \<lparr>cfg_apiKey = ''sk_test_key'', cfg_baseUrl = Some ''https://api.example.test/'',
      cfg_timeout = None, cfg_maxRetries = None\<rparr>
   = Inr demo_client"
  by (simp add: new_StorageBrain_def demo_client_def strip_trailing_slash_def dflt_def
        DEFAULT_TIMEOUT_def DEFAULT_MAX_RETRIES_def)

section \<open>Properties of request\<close>

lemma sleep_fields [simp]:
  "now (sleep E ms w) = now w + ms + timer_lag E (length (sleeps w))"
  "calls (sleep E ms w) = calls w"
  "sleeps (sleep E ms w) = sleeps w @ [ms]"
  "reported (sleep E ms w) = reported w"
  by (simp_all add: sleep_def)

text \<open>The four ways through one round of the loop.\<close>

lemma request_loop_rethrow:
  assumes "attempt < maxRetries c"
    and "attempt_result (reply (length (calls w))) = Inl e"
    and "rethrown e"
  shows "request_loop c E reply call attempt lastError w =
           (Inl e, w\<lparr>now := now w + latency E (length (calls w)),
                     calls := calls w @ [(now w, call)]\<rparr>)"
  using assms by (subst request_loop.simps) (simp add: Let_def)

lemma request_loop_return:
  assumes "attempt < maxRetries c"
    and "attempt_result (reply (length (calls w))) = Inr v"
  shows "request_loop c E reply call attempt lastError w =
           (Inr v, w\<lparr>now := now w + latency E (length (calls w)),
                     calls := calls w @ [(now w, call)]\<rparr>)"
  using assms by (subst request_loop.simps) (simp add: Let_def)

lemma request_loop_retry:
  assumes "attempt < maxRetries c"
    and "attempt_result (reply (length (calls w))) = Inl e"
    and "\<not> rethrown e"
  shows "request_loop c E reply call attempt lastError w =
           request_loop c E reply call (Suc attempt) (Some e)
             (let w1 = w\<lparr>now := now w + latency E (length (calls w)),
                          calls := calls w @ [(now w, call)]\<rparr>
              in if Suc attempt < maxRetries c
                 then sleep E (min (initialDelayMs * backoffMultiplier ^ attempt) maxDelayMs) w1
                 else w1)"
  using assms by (subst request_loop.simps) (simp add: Let_def)

lemma request_loop_done:
  assumes "\<not> attempt < maxRetries c"
  shows "request_loop c E reply call attempt lastError w =
           (Inl (NetworkError (''Request failed after '' @ decimal (maxRetries c) @ '' attempts'')
                   lastError), w)"
  using assms by (subst request_loop.simps) simp

text \<open>
  When every attempt that is left fails with an error that is not rethrown, the loop runs
  to its end, and the error it raises wraps the last one caught.
\<close>

lemma request_loop_exhaust:
  assumes "attempt \<le> maxRetries c"
    and "\<forall>k. length (calls w) \<le> k \<and> k < length (calls w) + (maxRetries c - attempt)
           \<longrightarrow> (\<exists>e. attempt_result (reply k) = Inl e \<and> \<not> rethrown e)"
  shows "\<exists>w' cause.
           request_loop c E reply call attempt lastError w =
             (Inl (NetworkError (''Request failed after '' @ decimal (maxRetries c) @ '' attempts'')
                     cause), w')
         \<and> length (calls w') = length (calls w) + (maxRetries c - attempt)
         \<and> (attempt = maxRetries c \<longrightarrow> cause = lastError)
         \<and> (attempt < maxRetries c \<longrightarrow>
              (\<exists>e. cause = Some e
                 \<and> attempt_result (reply (length (calls w) + (maxRetries c - attempt) - 1)) = Inl e))"
  using assms
proof (induction "maxRetries c - attempt" arbitrary: attempt lastError w)
  case 0
  then have "\<not> attempt < maxRetries c" by simp
  with 0 show ?case by (simp add: request_loop_done)
next
  case (Suc n)
  then have lt: "attempt < maxRetries c" by simp
  let ?k = "length (calls w)"
  from Suc.prems(2) lt obtain e where e: "attempt_result (reply ?k) = Inl e" "\<not> rethrown e"
    by (metis le_refl less_add_same_cancel1 zero_less_diff)
  let ?w1 = "w\<lparr>now := now w + latency E ?k, calls := calls w @ [(now w, call)]\<rparr>"
  let ?w2 = "if Suc attempt < maxRetries c
             then sleep E (min (initialDelayMs * backoffMultiplier ^ attempt) maxDelayMs) ?w1
             else ?w1"
  have len: "length (calls ?w2) = Suc ?k" by simp
  have step: "request_loop c E reply call attempt lastError w =
                request_loop c E reply call (Suc attempt) (Some e) ?w2"
    using lt e request_loop_retry [where attempt = attempt and c = c and reply = reply and w = w and e = e]
    by (simp add: Let_def)
  have n: "n = maxRetries c - Suc attempt" using Suc.hyps(2) by simp
  have le: "Suc attempt \<le> maxRetries c" using lt by simp
  have hyp: "\<forall>k. length (calls ?w2) \<le> k \<and> k < length (calls ?w2) + (maxRetries c - Suc attempt)
               \<longrightarrow> (\<exists>e. attempt_result (reply k) = Inl e \<and> \<not> rethrown e)"
  proof (intro allI impI)
    fix k assume "length (calls ?w2) \<le> k \<and> k < length (calls ?w2) + (maxRetries c - Suc attempt)"
    then have "?k \<le> k \<and> k < ?k + (maxRetries c - attempt)" using lt len by linarith
    with Suc.prems(2) show "\<exists>e. attempt_result (reply k) = Inl e \<and> \<not> rethrown e" by blast
  qed
  from Suc.hyps(1) [OF n le hyp, of "Some e"]
  obtain w' cause where r:
    "request_loop c E reply call (Suc attempt) (Some e) ?w2 =
       (Inl (NetworkError (''Request failed after '' @ decimal (maxRetries c) @ '' attempts'')
               cause), w')"
    "length (calls w') = length (calls ?w2) + (maxRetries c - Suc attempt)"
    "Suc attempt = maxRetries c \<longrightarrow> cause = Some e"
    "Suc attempt < maxRetries c \<longrightarrow>
       (\<exists>e'. cause = Some e'
          \<and> attempt_result (reply (length (calls ?w2) + (maxRetries c - Suc attempt) - 1)) = Inl e')"
    by blast
  have c1: "length (calls w') = ?k + (maxRetries c - attempt)"
    using r(2) len lt by linarith
  have c2: "\<exists>e'. cause = Some e'
              \<and> attempt_result (reply (?k + (maxRetries c - attempt) - 1)) = Inl e'"
  proof (cases "Suc attempt = maxRetries c")
    case True
    then have "?k + (maxRetries c - attempt) - 1 = ?k" by linarith
    with True r(3) e(1) show ?thesis by simp
  next
    case False
    then have lt2: "Suc attempt < maxRetries c" using lt by simp
    have "length (calls ?w2) + (maxRetries c - Suc attempt) - 1 = ?k + (maxRetries c - attempt) - 1"
      using len lt2 by linarith
    with r(4) lt2 show ?thesis by simp
  qed
  from step r(1) c1 c2 lt show ?case by auto
qed

text \<open>
  A request leaves the reported progress alone, never withdraws a call and never turns
  the clock back; with an attempt left it issues a call.
\<close>

lemma request_loop_world:
  "reported (snd (request_loop c E reply call attempt lastError w)) = reported w
   \<and> length (calls w) \<le> length (calls (snd (request_loop c E reply call attempt lastError w)))
   \<and> now w \<le> now (snd (request_loop c E reply call attempt lastError w))"
proof (induction c E reply call attempt lastError w rule: request_loop.induct)
  case (1 c E reply call attempt lastError w)
  show ?case
  proof (cases "attempt < maxRetries c")
    case False
    then show ?thesis by (simp add: request_loop_done)
  next
    case lt: True
    show ?thesis
    proof (cases "attempt_result (reply (length (calls w)))")
      case (Inr v)
      with lt show ?thesis by (simp add: request_loop_return)
    next
      case (Inl e)
      show ?thesis
      proof (cases "rethrown e")
        case True
        with lt Inl show ?thesis by (simp add: request_loop_rethrow)
      next
        case False
        let ?w1 = "w\<lparr>now := now w + latency E (length (calls w)),
                     calls := calls w @ [(now w, call)]\<rparr>"
        let ?w2 = "if attempt + 1 < maxRetries c
                   then sleep E (min (initialDelayMs * backoffMultiplier ^ attempt) maxDelayMs) ?w1
                   else ?w1"
        let ?res = "snd (request_loop c E reply call (attempt + 1) (Some e) ?w2)"
        have ih: "reported ?res = reported ?w2 \<and> length (calls ?w2) \<le> length (calls ?res)
                    \<and> now ?w2 \<le> now ?res"
          using "1.IH" [OF lt refl refl Inl False] .
        have step: "request_loop c E reply call attempt lastError w =
                      request_loop c E reply call (attempt + 1) (Some e) ?w2"
          using lt Inl False
            request_loop_retry [where attempt = attempt and c = c and reply = reply and w = w and e = e]
          by (simp add: Let_def)
        have r: "reported ?w2 = reported w" by simp
        have l: "length (calls w) \<le> length (calls ?w2)" by simp
        have t: "now w \<le> now ?w2" by simp
        have a: "reported ?res = reported w" by (rule trans [OF conjunct1 [OF ih] r])
        have b: "length (calls w) \<le> length (calls ?res)"
          by (rule order_trans [OF l conjunct1 [OF conjunct2 [OF ih]]])
        have d: "now w \<le> now ?res"
          by (rule order_trans [OF t conjunct2 [OF conjunct2 [OF ih]]])
        from a b d show ?thesis unfolding step by blast
      qed
    qed
  qed
qed

lemma request_loop_issues_call:
  assumes "attempt < maxRetries c"
  shows "length (calls w) < length (calls (snd (request_loop c E reply call attempt lastError w)))"
proof (cases "attempt_result (reply (length (calls w)))")
  case (Inr v)
  with assms show ?thesis by (simp add: request_loop_return)
next
  case (Inl e)
  show ?thesis
  proof (cases "rethrown e")
    case True
    with assms Inl show ?thesis by (simp add: request_loop_rethrow)
  next
    case False
    let ?w1 = "w\<lparr>now := now w + latency E (length (calls w)),
                 calls := calls w @ [(now w, call)]\<rparr>"
    let ?w2 = "if Suc attempt < maxRetries c
               then sleep E (min (initialDelayMs * backoffMultiplier ^ attempt) maxDelayMs) ?w1
               else ?w1"
    have step: "request_loop c E reply call attempt lastError w =
                  request_loop c E reply call (Suc attempt) (Some e) ?w2"
      using assms Inl False
        request_loop_retry [where attempt = attempt and c = c and reply = reply and w = w and e = e]
      by (simp add: Let_def)
    have "length (calls ?w2) \<le> length (calls (snd (request_loop c E reply call (Suc attempt) (Some e) ?w2)))"
      using request_loop_world by blast
    moreover have "length (calls w) < length (calls ?w2)" by simp
    ultimately show ?thesis unfolding step by linarith
  qed
qed



text \<open>
  Claim C7. When all \<open>maxRetries\<close> attempts fail with errors that are not rethrown (a
  rejected \<open>fetch\<close>, a 5xx answer with no recognised code, a body that does not parse),
  \<open>request\<close> makes exactly \<open>maxRetries\<close> calls and raises a \<open>NetworkError\<close> whose
  message states that number and whose \<open>originalError\<close> is the error of the last
  attempt.
\<close>

theorem request_exhausted_retries:
  assumes "\<forall>k. length (calls w) \<le> k \<and> k < length (calls w) + maxRetries c
             \<longrightarrow> (\<exists>e. attempt_result (reply k) = Inl e \<and> \<not> rethrown e)"
  shows "\<exists>w' cause.
           request c E reply verb path body w =
             (Inl (NetworkError (''Request failed after '' @ decimal (maxRetries c) @ '' attempts'')
                     cause), w')
         \<and> length (calls w') = length (calls w) + maxRetries c
         \<and> (maxRetries c = 0 \<longrightarrow> cause = None)
         \<and> (0 < maxRetries c \<longrightarrow>
              (\<exists>e. cause = Some e
                 \<and> attempt_result (reply (length (calls w) + maxRetries c - 1)) = Inl e))"
  using request_loop_exhaust [where attempt = 0 and c = c and w = w and reply = reply
                                 and lastError = None and E = E] assms
  unfolding request_def by simp

theorem request_exhausted_retries_witness:
  "\<exists>w'. request demo_client offline_env (file_reply offline_env)
           ''GET'' ''/api/v1/files/f1'' JUndefined start_world
         = (Inl (NetworkError ''Request failed after 3 attempts'' (Some (Error ''Failed to fetch''))), w')
       \<and> length (calls w') = 3"
proof -
  have h: "\<forall>k. length (calls start_world) \<le> k
                 \<and> k < length (calls start_world) + maxRetries demo_client
             \<longrightarrow> (\<exists>e. attempt_result (file_reply offline_env k) = Inl e \<and> \<not> rethrown e)"
    by (simp add: offline_env_def attempt_result_def rethrown_def)
  from request_exhausted_retries [OF h, of offline_env "''GET''" "''/api/v1/files/f1''" JUndefined]
  show ?thesis
    by (auto simp add: demo_client_def start_world_def offline_env_def attempt_result_def
          decimal.simps)
qed



section \<open>Properties of uploadToPresignedUrl\<close>

lemma xhr_settle_network:
  "xhr_settle cb s evs w = Some (r, w') \<Longrightarrow>
     calls w' = calls w \<and> now w' = now w \<and> sleeps w' = sleeps w"
  by (induction cb s evs w rule: xhr_settle.induct) (auto split: if_splits option.splits)

text \<open>
  Claim C6. A transfer whose request is set up without an exception and which settles
  has sent exactly one request. For a
  destination that begins with \<open>/\<close> the request goes to the configured base address
  followed by the destination and carries \<open>Authorization: Bearer\<close> with the API key;
  for any other destination the request goes to the destination as given and carries
  the content type only.
\<close>

theorem transfer_url_and_auth:
  assumes "xhr E = Emits evs"
    and "uploadToPresignedUrl c E u file ct onProgress signal w = Some (r, w')"
  shows "(startsWith u ''/'' \<longrightarrow>
            calls w' = calls w @
              [(now w, XhrSend ''PUT'' (baseUrl c @ u)
                         [(''Content-Type'', ct), (''Authorization'', ''Bearer '' @ apiKey c)] file)])
       \<and> (\<not> startsWith u ''/'' \<longrightarrow>
            calls w' = calls w @ [(now w, XhrSend ''PUT'' u [(''Content-Type'', ct)] file)])"
proof -
  let ?url = "if startsWith u ''/'' then baseUrl c @ u else u"
  let ?hs = "(''Content-Type'', ct) #
             (if startsWith u ''/'' then [(''Authorization'', ''Bearer '' @ apiKey c)] else [])"
  let ?w1 = "w\<lparr>now := now w + xhr_ms E, calls := calls w @ [(now w, XhrSend ''PUT'' ?url ?hs file)]\<rparr>"
  from assms obtain r0 where "xhr_settle onProgress (signal \<noteq> None) evs ?w1 = Some (r0, w')"
    by (auto simp add: uploadToPresignedUrl_def Let_def split: option.splits sum.splits prod.splits)
  then have "calls w' = calls ?w1" by (simp add: xhr_settle_network)
  then show ?thesis by simp
qed

theorem transfer_url_and_auth_witness:
  "map_option (calls \<circ> snd)
     (uploadToPresignedUrl demo_client upload_env ''/api/v1/upload/f1'' demo_blob ''image/png''
        None None start_world)
   = Some [(0, XhrSend ''PUT'' ''https://api.example.test/api/v1/upload/f1''
                 [(''Content-Type'', ''image/png''), (''Authorization'', ''Bearer sk_test_key'')]
                 demo_blob)]
   \<and> map_option (calls \<circ> snd)
     (uploadToPresignedUrl demo_client upload_env ''https://bucket.example.test/put/f1'' demo_blob
        ''image/png'' None None start_world)
   = Some [(0, XhrSend ''PUT'' ''https://bucket.example.test/put/f1''
                 [(''Content-Type'', ''image/png'')] demo_blob)]"
proof -
  let ?rel = "uploadToPresignedUrl demo_client upload_env ''/api/v1/upload/f1'' demo_blob
                ''image/png'' None None start_world"
  let ?abs = "uploadToPresignedUrl demo_client upload_env ''https://bucket.example.test/put/f1''
                demo_blob ''image/png'' None None start_world"
  have ev: "xhr upload_env = Emits [Progress True 1 1000, Progress True 500 1000, Load 200]"
    by (simp add: upload_env_def)
  have r1: "?rel = Some (Inr (), snd (the ?rel))"
    by (simp add: uploadToPresignedUrl_def Let_def upload_env_def)
  have r2: "?abs = Some (Inr (), snd (the ?abs))"
    by (simp add: uploadToPresignedUrl_def Let_def upload_env_def)
  have s1: "startsWith ''/api/v1/upload/f1'' ''/''" by (simp add: startsWith_def)
  have s2: "\<not> startsWith ''https://bucket.example.test/put/f1'' ''/''" by (simp add: startsWith_def)
  have a: "calls (snd (the ?rel)) =
             [(0, XhrSend ''PUT'' ''https://api.example.test/api/v1/upload/f1''
                    [(''Content-Type'', ''image/png''), (''Authorization'', ''Bearer sk_test_key'')]
                    demo_blob)]"
    using transfer_url_and_auth [OF ev r1] s1 by (simp add: demo_client_def start_world_def)
  have b: "calls (snd (the ?abs)) =
             [(0, XhrSend ''PUT'' ''https://bucket.example.test/put/f1''
                    [(''Content-Type'', ''image/png'')] demo_blob)]"
    using transfer_url_and_auth [OF ev r2] s2 by (simp add: demo_client_def start_world_def)
  have "map_option (calls \<circ> snd) ?rel = Some (calls (snd (the ?rel)))"
    by (subst r1) simp
  moreover have "map_option (calls \<circ> snd) ?abs = Some (calls (snd (the ?abs)))"
    by (subst r2) simp
  ultimately show ?thesis using a b by simp
qed

lemma xhr_settle_signal_abort:
  "list_all is_progress pre \<Longrightarrow>
     \<exists>w'. xhr_settle cb True (pre @ SignalAbort # post) w =
             Some (Inl (UploadError ''Upload was cancelled'' None), w')"
proof (induction pre arbitrary: w)
  case Nil
  then show ?case by simp
next
  case (Cons ev pre)
  then obtain l a b where "ev = Progress l a b" by (cases ev) simp_all
  with Cons show ?case by simp
qed

lemma cancelled_message_differs:
  "''Upload was cancelled'' \<noteq> ''Upload failed with status '' @ s"
  by simp

text \<open>
  Claim C5, as amended. When a signal was passed and its \<open>abort\<close> event arrives while the
  transfer is in flight (only progress events came before it), the transfer is aborted
  and the operation fails with the \<open>UploadError\<close> whose message is
  \<open>Upload was cancelled\<close>. This error differs from the error of a non-2xx answer in
  its message only: both have the class \<open>UploadError\<close> and the code \<open>UPLOAD_ERROR\<close>.
\<close>

theorem transfer_cancelled_in_flight:
  assumes "xhr E = Emits (pre @ SignalAbort # post)"
    and "list_all is_progress pre"
  shows "(\<exists>w'. uploadToPresignedUrl c E u file ct onProgress (Some sig) w =
                 Some (Inl (UploadError ''Upload was cancelled'' None), w'))
       \<and> UploadError ''Upload was cancelled'' None
           \<noteq> UploadError (''Upload failed with status '' @ decimal st) None
       \<and> name (UploadError ''Upload was cancelled'' None)
           = name (UploadError (''Upload failed with status '' @ decimal st) None)
       \<and> code (UploadError ''Upload was cancelled'' None)
           = code (UploadError (''Upload failed with status '' @ decimal st) None)"
proof -
  let ?url = "if startsWith u ''/'' then baseUrl c @ u else u"
  let ?hs = "(''Content-Type'', ct) #
             (if startsWith u ''/'' then [(''Authorization'', ''Bearer '' @ apiKey c)] else [])"
  let ?w1 = "w\<lparr>now := now w + xhr_ms E, calls := calls w @ [(now w, XhrSend ''PUT'' ?url ?hs file)]\<rparr>"
  from xhr_settle_signal_abort [OF assms(2), of onProgress post ?w1]
  obtain w' where "xhr_settle onProgress True (pre @ SignalAbort # post) ?w1 =
                     Some (Inl (UploadError ''Upload was cancelled'' None), w')" by blast
  then have "uploadToPresignedUrl c E u file ct onProgress (Some sig) w =
               Some (Inl (UploadError ''Upload was cancelled'' None), w')"
    using assms(1) by (simp add: uploadToPresignedUrl_def Let_def)
  then show ?thesis by (auto simp add: cancelled_message_differs)
qed

theorem transfer_cancelled_in_flight_witness:
  "map_option fst
     (uploadToPresignedUrl demo_client cancel_env ''https://bucket.example.test/put/f1'' demo_blob
        ''image/png'' None (Some (\<lambda>t. 5 \<le> t)) start_world)
   = Some (Inl (UploadError ''Upload was cancelled'' None))
   \<and> UploadError ''Upload was cancelled'' None \<noteq> UploadError ''Upload failed with status 500'' None"
proof -
  have h1: "xhr cancel_env = Emits ([Progress True 250 1000] @ SignalAbort # [Load 200])"
    by (simp add: cancel_env_def)
  have h2: "list_all is_progress [Progress True 250 1000]" by simp
  from transfer_cancelled_in_flight [OF h1 h2, of demo_client "''https://bucket.example.test/put/f1''"
      demo_blob "''image/png''" None "\<lambda>t. 5 \<le> t" start_world 500]
  show ?thesis by (auto simp add: decimal.simps)
qed

text \<open>
  Claim C5 as stated fails: a cancelled transfer and a transfer answered with status 500
  end in errors of the same class, with the same code and the same (absent) status code.
\<close>

theorem cancelled_kind_not_distinct_counterexample:
  "map_option fst
     (uploadToPresignedUrl demo_client cancel_env ''https://bucket.example.test/put/f1'' demo_blob
        ''image/png'' None (Some (\<lambda>t. 5 \<le> t)) start_world)
   = Some (Inl (UploadError ''Upload was cancelled'' None))
   \<and> map_option fst
     (uploadToPresignedUrl demo_client reject_env ''https://bucket.example.test/put/f1'' demo_blob
        ''image/png'' None (Some (\<lambda>t. 5 \<le> t)) start_world)
   = Some (Inl (UploadError ''Upload failed with status 500'' None))
   \<and> name (UploadError ''Upload was cancelled'' None)
       = name (UploadError ''Upload failed with status 500'' None)
   \<and> code (UploadError ''Upload was cancelled'' None)
       = code (UploadError ''Upload failed with status 500'' None)
   \<and> statusCode (UploadError ''Upload was cancelled'' None)
       = statusCode (UploadError ''Upload failed with status 500'' None)"
  by (simp add: uploadToPresignedUrl_def Let_def cancel_env_def reject_env_def offline_env_def
        demo_client_def demo_blob_def start_world_def startsWith_def decimal.simps)

section \<open>Properties of waitForProcessing\<close>


lemma getFile_ok:
  assumes "0 < maxRetries c"
    and "file_reply E (length (calls w)) = OkJson f"
  shows "getFile c E fid w =
           (Inr f, w\<lparr>now := now w + latency E (length (calls w)),
                     calls := calls w @
                       [(now w, Fetch ''GET'' (baseUrl c @ ''/api/v1/files/'' @ fid)
                                  [(''Content-Type'', ''application/json''),
                                   (''Authorization'', ''Bearer '' @ apiKey c)] JUndefined)]\<rparr>)"
  using assms unfolding getFile_def request_def
  by (simp add: request_loop_return attempt_result_def)

lemma poll_past_deadline:
  "st + M \<le> now w \<Longrightarrow> poll c E fid signal M p st w = Some (getFile c E fid w)"
  by (subst poll.simps) simp

lemma poll_continue:
  assumes "now w < st + M" and "\<not> aborted signal w"
    and "getFile c E fid w = (Inr file, w1)"
    and "processingStatus file \<noteq> Completed" and "processingStatus file \<noteq> Failed"
  shows "poll c E fid signal M p st w = poll c E fid signal M p st (sleep E p w1)"
  using assms by (subst poll.simps) simp


text \<open>
  A file that never reaches a terminal state: the loop reads it until the deadline has
  passed, then reads it once more and returns that record.
\<close>

lemma poll_never_terminal:
  assumes mr: "0 < maxRetries c" and p: "0 < p"
    and never: "\<forall>k. length (calls w) \<le> k \<longrightarrow>
                  (\<exists>f. file_reply E k = OkJson f
                     \<and> processingStatus f \<noteq> Completed \<and> processingStatus f \<noteq> Failed)"
    and live: "\<forall>v. \<not> aborted signal v"
  shows "\<exists>n f w' new.
           poll c E fid signal M p st w = Some (Inr f, w')
         \<and> file_reply E (length (calls w) + n) = OkJson f
         \<and> calls w' = calls w @ new \<and> length new = Suc n
         \<and> (\<forall>i<n. fst (new ! i) < st + M)
         \<and> st + M \<le> fst (new ! n)
         \<and> n * p < (st + M - now w) + p"
  using never
proof (induction "st + M - now w" arbitrary: w rule: less_induct)
  case less
  let ?k = "length (calls w)"
  let ?call = "Fetch ''GET'' (baseUrl c @ ''/api/v1/files/'' @ fid)
                 [(''Content-Type'', ''application/json''),
                  (''Authorization'', ''Bearer '' @ apiKey c)] JUndefined"
  let ?w1 = "w\<lparr>now := now w + latency E ?k, calls := calls w @ [(now w, ?call)]\<rparr>"
  from less.prems obtain f where f: "file_reply E ?k = OkJson f"
    "processingStatus f \<noteq> Completed" "processingStatus f \<noteq> Failed" by blast
  have g: "getFile c E fid w = (Inr f, ?w1)" by (rule getFile_ok [OF mr f(1)])
  show ?case
  proof (cases "st + M \<le> now w")
    case True
    then have "poll c E fid signal M p st w = Some (Inr f, ?w1)"
      by (simp add: poll_past_deadline g)
    moreover have "file_reply E (?k + 0) = OkJson f" using f(1) by simp
    moreover have "calls ?w1 = calls w @ [(now w, ?call)]" by simp
    moreover have "st + M \<le> fst ([(now w, ?call)] ! 0)" using True by simp
    moreover have "0 * p < (st + M - now w) + p" using p by simp
    ultimately show ?thesis
      by (intro exI [of _ 0] exI [of _ f] exI [of _ ?w1] exI [of _ "[(now w, ?call)]"]) simp
  next
    case False
    then have lt: "now w < st + M" by simp
    let ?w2 = "sleep E p ?w1"
    have step: "poll c E fid signal M p st w = poll c E fid signal M p st ?w2"
      using poll_continue [OF lt _ g f(2) f(3)] live by simp
    have adv: "now w + p \<le> now ?w2" by simp
    have dec: "st + M - now ?w2 < st + M - now w" using adv lt p by linarith
    have len: "length (calls ?w2) = Suc ?k" by simp
    have never2: "\<forall>k. length (calls ?w2) \<le> k \<longrightarrow>
                  (\<exists>f. file_reply E k = OkJson f
                     \<and> processingStatus f \<noteq> Completed \<and> processingStatus f \<noteq> Failed)"
      using less.prems len by simp
    from less.hyps [OF dec never2]
    obtain n f' w' new where ih:
      "poll c E fid signal M p st ?w2 = Some (Inr f', w')"
      "file_reply E (length (calls ?w2) + n) = OkJson f'"
      "calls w' = calls ?w2 @ new" "length new = Suc n"
      "\<forall>i<n. fst (new ! i) < st + M"
      "st + M \<le> fst (new ! n)"
      "n * p < (st + M - now ?w2) + p"
      by blast
    let ?new = "(now w, ?call) # new"
    have 1: "poll c E fid signal M p st w = Some (Inr f', w')" using step ih(1) by simp
    have 2: "file_reply E (?k + Suc n) = OkJson f'" using ih(2) len by simp
    have 3: "calls w' = calls w @ ?new" using ih(3) by simp
    have 4: "length ?new = Suc (Suc n)" using ih(4) by simp
    have 5: "\<forall>i<Suc n. fst (?new ! i) < st + M"
    proof (intro allI impI)
      fix i assume "i < Suc n"
      then show "fst (?new ! i) < st + M" using lt ih(5) by (cases i) simp_all
    qed
    have 6: "st + M \<le> fst (?new ! Suc n)" using ih(6) by simp
    have 7: "Suc n * p < (st + M - now w) + p"
    proof (cases n)
      case 0
      then show ?thesis using lt by simp
    next
      case (Suc m)
      then have "p \<le> n * p" by simp
      with ih(7) have below: "now ?w2 < st + M" by linarith
      have e: "Suc n * p = p + n * p" by simp
      from ih(7) adv below show ?thesis unfolding e by linarith
    qed
    from 1 2 3 4 5 6 7 show ?thesis by blast
  qed
qed

text \<open>
  Claim C2. Let every read of the file succeed with a state that is not terminal, let the
  signal (if any) never be aborted, and let the poll interval be positive. Then
  \<open>waitForProcessing\<close> returns without an error the record of its last read. All reads
  but the last are issued before \<open>maxWaitMs\<close> has elapsed and the last one is issued
  when it has; there are at most \<open>maxWaitMs / pollIntervalMs\<close>, rounded up, reads before
  the last. For \<open>maxWaitMs = 3000\<close> and \<open>pollIntervalMs = 1000\<close> that is at most 4
  reads in all.
\<close>

theorem waitForProcessing_deadline:
  assumes "0 < maxRetries c" and "0 < pollIntervalMs"
    and "\<forall>k. length (calls w) \<le> k \<longrightarrow>
           (\<exists>f. file_reply E k = OkJson f
              \<and> processingStatus f \<noteq> Completed \<and> processingStatus f \<noteq> Failed)"
    and "\<forall>v. \<not> aborted signal v"
  shows "\<exists>n f w' new.
           waitForProcessing c E fid signal maxWaitMs pollIntervalMs w = Some (Inr f, w')
         \<and> file_reply E (length (calls w) + n) = OkJson f
         \<and> calls w' = calls w @ new \<and> length new = n + 1
         \<and> (\<forall>i<n. fst (new ! i) < now w + maxWaitMs)
         \<and> now w + maxWaitMs \<le> fst (new ! n)
         \<and> n * pollIntervalMs < maxWaitMs + pollIntervalMs
         \<and> (maxWaitMs = 3000 \<and> pollIntervalMs = 1000 \<longrightarrow> length new \<le> 4)"
proof -
  from poll_never_terminal [OF assms, of fid maxWaitMs "now w"]
  obtain n f w' new where r:
    "poll c E fid signal maxWaitMs pollIntervalMs (now w) w = Some (Inr f, w')"
    "file_reply E (length (calls w) + n) = OkJson f"
    "calls w' = calls w @ new" "length new = Suc n"
    "\<forall>i<n. fst (new ! i) < now w + maxWaitMs"
    "now w + maxWaitMs \<le> fst (new ! n)"
    "n * pollIntervalMs < (now w + maxWaitMs - now w) + pollIntervalMs"
    by blast
  have b: "n * pollIntervalMs < maxWaitMs + pollIntervalMs" using r(7) by simp
  have "maxWaitMs = 3000 \<and> pollIntervalMs = 1000 \<longrightarrow> length new \<le> 4"
    using b r(4) by auto
  with r b show ?thesis unfolding waitForProcessing_def by (intro exI [of _ n] exI [of _ f] exI [of _ w'] exI [of _ new]) simp
qed

theorem waitForProcessing_deadline_witness:
  "\<exists>w'. waitForProcessing demo_client busy_env ''f1'' None 3000 1000 start_world
           = Some (Inr processing_info, w')
       \<and> length (calls w') \<le> 4"
proof -
  have h1: "0 < maxRetries demo_client" by (simp add: demo_client_def)
  have h2: "(0::nat) < 1000" by simp
  have h3: "\<forall>k. length (calls start_world) \<le> k \<longrightarrow>
              (\<exists>f. file_reply busy_env k = OkJson f
                 \<and> processingStatus f \<noteq> Completed \<and> processingStatus f \<noteq> Failed)"
    by (simp add: busy_env_def processing_info_def)
  have h4: "\<forall>v. \<not> aborted None v" by (simp add: aborted_def)
  from waitForProcessing_deadline [OF h1 h2 h3 h4, of "''f1''" 3000]
  show ?thesis by (auto simp add: busy_env_def start_world_def)
qed

text \<open>
  Claim C10. Once the deadline has passed when the loop condition is evaluated, the loop
  is left and the final read is made and returned, whatever the state of the signal: the
  signal is looked at inside the loop body only. So when the last read inside the loop
  gave a state that is not terminal and the signal is aborted during the sleep that
  carries the clock past the deadline, the outcome is that of one more read, which issues
  at least one network call, not the cancellation error.
\<close>

theorem poll_deadline_ignores_cancellation:
  "(st + maxWaitMs \<le> now w \<longrightarrow>
      poll c E fid signal maxWaitMs p st w = Some (getFile c E fid w))
   \<and> (now w < st + maxWaitMs \<and> \<not> aborted signal w \<and> getFile c E fid w = (Inr info, w1)
        \<and> processingStatus info \<noteq> Completed \<and> processingStatus info \<noteq> Failed
        \<and> st + maxWaitMs \<le> now (sleep E p w1) \<and> aborted signal (sleep E p w1)
      \<longrightarrow> poll c E fid signal maxWaitMs p st w = Some (getFile c E fid (sleep E p w1)))
   \<and> (0 < maxRetries c \<longrightarrow> length (calls w) < length (calls (snd (getFile c E fid w))))"
proof (intro conjI impI)
  assume "st + maxWaitMs \<le> now w"
  then show "poll c E fid signal maxWaitMs p st w = Some (getFile c E fid w)"
    by (rule poll_past_deadline)
next
  assume a: "now w < st + maxWaitMs \<and> \<not> aborted signal w \<and> getFile c E fid w = (Inr info, w1)
        \<and> processingStatus info \<noteq> Completed \<and> processingStatus info \<noteq> Failed
        \<and> st + maxWaitMs \<le> now (sleep E p w1) \<and> aborted signal (sleep E p w1)"
  then have "poll c E fid signal maxWaitMs p st w = poll c E fid signal maxWaitMs p st (sleep E p w1)"
    by (simp add: poll_continue)
  also have "\<dots> = Some (getFile c E fid (sleep E p w1))"
    using a by (simp add: poll_past_deadline)
  finally show "poll c E fid signal maxWaitMs p st w = Some (getFile c E fid (sleep E p w1))" .
next
  assume "0 < maxRetries c"
  then show "length (calls w) < length (calls (snd (getFile c E fid w)))"
    unfolding getFile_def request_def by (rule request_loop_issues_call)
qed

theorem poll_deadline_ignores_cancellation_witness:
  "waitForProcessing demo_client busy_env ''f1'' (Some (\<lambda>t. 500 \<le> t)) 1000 1000 start_world
     = Some (Inr processing_info,
             \<lparr>now = 1040,
              calls = [(0, Fetch ''GET'' ''https://api.example.test/api/v1/files/f1''
                            [(''Content-Type'', ''application/json''),
                             (''Authorization'', ''Bearer sk_test_key'')] JUndefined),
                       (1020, Fetch ''GET'' ''https://api.example.test/api/v1/files/f1''
                            [(''Content-Type'', ''application/json''),
                             (''Authorization'', ''Bearer sk_test_key'')] JUndefined)],
              sleeps = [1000], reported = []\<rparr>)
   \<and> aborted (Some (\<lambda>t. 500 \<le> t))
       (sleep busy_env 1000
          (start_world\<lparr>now := 20,
             calls := [(0, Fetch ''GET'' ''https://api.example.test/api/v1/files/f1''
                            [(''Content-Type'', ''application/json''),
                             (''Authorization'', ''Bearer sk_test_key'')] JUndefined)]\<rparr>))"
proof -
  let ?call = "Fetch ''GET'' ''https://api.example.test/api/v1/files/f1''
                 [(''Content-Type'', ''application/json''),
                  (''Authorization'', ''Bearer sk_test_key'')] JUndefined"
  let ?w1 = "start_world\<lparr>now := 20, calls := [(0, ?call)]\<rparr>"
  have mr: "0 < maxRetries demo_client" by (simp add: demo_client_def)
  have g1: "getFile demo_client busy_env ''f1'' start_world = (Inr processing_info, ?w1)"
    using getFile_ok [OF mr, of busy_env start_world processing_info "''f1''"]
    by (simp add: busy_env_def offline_env_def start_world_def demo_client_def)
  have g2: "getFile demo_client busy_env ''f1'' (sleep busy_env 1000 ?w1)
              = (Inr processing_info,
                 \<lparr>now = 1040, calls = [(0, ?call), (1020, ?call)], sleeps = [1000], reported = []\<rparr>)"
    using getFile_ok [OF mr, of busy_env "sleep busy_env 1000 ?w1" processing_info "''f1''"]
    by (simp add: busy_env_def offline_env_def start_world_def demo_client_def sleep_def)
  have ab: "aborted (Some (\<lambda>t. 500 \<le> t)) (sleep busy_env 1000 ?w1)"
    by (simp add: aborted_def busy_env_def offline_env_def start_world_def)
  have pre: "now start_world < now start_world + 1000
        \<and> \<not> aborted (Some (\<lambda>t. 500 \<le> t)) start_world
        \<and> getFile demo_client busy_env ''f1'' start_world = (Inr processing_info, ?w1)
        \<and> processingStatus processing_info \<noteq> Completed
        \<and> processingStatus processing_info \<noteq> Failed
        \<and> now start_world + 1000 \<le> now (sleep busy_env 1000 ?w1)
        \<and> aborted (Some (\<lambda>t. 500 \<le> t)) (sleep busy_env 1000 ?w1)"
    using g1 ab
    by (simp add: aborted_def start_world_def processing_info_def busy_env_def offline_env_def)
  from poll_deadline_ignores_cancellation
    [where st = "now start_world" and maxWaitMs = 1000 and w = start_world and c = demo_client
       and E = busy_env and fid = "''f1''" and signal = "Some (\<lambda>t. 500 \<le> t)" and p = 1000
       and info = processing_info and ?w1.0 = ?w1]
  have "poll demo_client busy_env ''f1'' (Some (\<lambda>t. 500 \<le> t)) 1000 1000 (now start_world) start_world
          = Some (getFile demo_client busy_env ''f1'' (sleep busy_env 1000 ?w1))"
    using pre by blast
  with g2 ab show ?thesis by (simp add: waitForProcessing_def)
qed

section \<open>Properties of upload\<close>

text \<open>
  Claim C8. A payload whose declared media type is not among \<open>ALLOWED_MIME_TYPES\<close> makes
  \<open>upload\<close> raise \<open>InvalidFileTypeError\<close> with the world as it was: no network call has
  been issued, no timer awaited and no progress reported.
\<close>

theorem upload_invalid_type_before_network:
  assumes "blob_type file \<notin> set ALLOWED_MIME_TYPES"
  shows "upload c E file options w =
           Some (Inl (InvalidFileTypeError (JStr (blob_type file))
                        (JArr (map JStr ALLOWED_MIME_TYPES))), w)"
  using assms by (simp add: upload_def Let_def)

theorem upload_invalid_type_before_network_witness:
  "upload demo_client offline_env (demo_blob\<lparr>blob_type := ''text/html''\<rparr>)
     \<lparr>opt_context = Invoice, opt_tags = None, opt_onProgress = True, opt_webhookUrl = None,
      opt_signal = None\<rparr> start_world
   = Some (Inl (InvalidFileTypeError (JStr ''text/html'')
                  (JArr [JStr ''image/jpeg'', JStr ''image/png'', JStr ''image/webp'',
                         JStr ''image/gif'', JStr ''image/avif'', JStr ''application/pdf''])),
           start_world)"
proof -
  have h: "blob_type (demo_blob\<lparr>blob_type := ''text/html''\<rparr>) \<notin> set ALLOWED_MIME_TYPES"
    by (simp add: ALLOWED_MIME_TYPES_def)
  from upload_invalid_type_before_network [OF h] show ?thesis
    by (simp add: ALLOWED_MIME_TYPES_def)
qed












end
